theory Spec2Isabelle
  imports Complex_Main "HOL-Library.Sublist"
begin

section \<open>JavaScript values\<close>

text \<open>
  The handlers of the cats example are typed \<^verbatim>\<open>any\<close> at run time: the pipe, the guard
  and the service receive whatever the body parser and the middleware put on the request.
  The values are therefore modelled untyped, as the JSON values plus \<^verbatim>\<open>undefined\<close>
  (what reading an absent property yields). An object is the list of its own properties,
  each key once; a lookup takes the first entry of a key.
  Numbers are the IEEE doubles seen through their value: a rational, an infinity or NaN
  (the sign of zero is not kept; nothing in the program distinguishes it).
\<close>

datatype jsnum = NaN | PosInfinity | NegInfinity | Finite rat

datatype jsval =
    JUndefined
  | JNull
  | JBool bool
  | JNum jsnum
  | JStr string
  | JArr "jsval list"
  | JObj "(string \<times> jsval) list"

text \<open>ToBoolean, the conversion behind \<^verbatim>\<open>!v\<close> and \<^verbatim>\<open>a && b\<close>.\<close>

fun truthy :: "jsval \<Rightarrow> bool" where
  "truthy JUndefined = False"
| "truthy JNull = False"
| "truthy (JBool b) = b"
| "truthy (JNum n) = (case n of NaN \<Rightarrow> False | Finite q \<Rightarrow> q \<noteq> 0 | _ \<Rightarrow> True)"
| "truthy (JStr s) = (s \<noteq> [])"
| "truthy (JArr xs) = True"
| "truthy (JObj ps) = True"

text \<open>The \<^verbatim>\<open>typeof\<close> operator.\<close>

fun typeof :: "jsval \<Rightarrow> string" where
  "typeof JUndefined = ''undefined''"
| "typeof JNull = ''object''"
| "typeof (JBool b) = ''boolean''"
| "typeof (JNum n) = ''number''"
| "typeof (JStr s) = ''string''"
| "typeof (JArr xs) = ''object''"
| "typeof (JObj ps) = ''object''"

subsection \<open>Exceptions\<close>

text \<open>
  A tagged HTTP exception carries a status code (\<^verbatim>\<open>getStatus()\<close>) and a message. The
  other failure the modelled code can raise is the engine's \<^verbatim>\<open>TypeError\<close>: reading a
  property of \<^verbatim>\<open>null\<close> or \<^verbatim>\<open>undefined\<close>, or calling something that is not a function.
\<close>

record http_exception =
  getStatus :: int
  message :: string

datatype exn = HttpExn http_exception | TypeError

text \<open>
  Modelled from the spec: the framework class \<^verbatim>\<open>BadRequestException\<close> is imported from
  \<^verbatim>\<open>@nestjs/common\<close> and is not among the sources; section 7 gives a validation failure
  as "a 400-equivalent" carrying the message it was built with.
\<close>

definition BadRequestException :: "string \<Rightarrow> http_exception" where
  "BadRequestException msg = \<lparr>getStatus = 400, message = msg\<rparr>"

text \<open>
  Modelled from the spec: the framework's \<^verbatim>\<open>ForbiddenException\<close>, raised by the pipeline
  when a guard denies; section 7 gives an authorization failure as "a framework-default
  403-equivalent". The message is the framework's default text; no result below depends
  on it.
\<close>

definition ForbiddenException :: http_exception where
  "ForbiddenException = \<lparr>getStatus = 403, message = ''Forbidden resource''\<rparr>"

subsection \<open>Property access\<close>

text \<open>
  \<^verbatim>\<open>v.k\<close> for a data key \<^verbatim>\<open>k\<close>: a \<^verbatim>\<open>TypeError\<close> on \<^verbatim>\<open>null\<close> and \<^verbatim>\<open>undefined\<close>, the own
  property of an object when it has one, and \<^verbatim>\<open>undefined\<close> otherwise. The program reads
  the keys \<^verbatim>\<open>name\<close> and \<^verbatim>\<open>roles\<close> only, which no built-in prototype of a primitive, an
  array or a plain object defines; keys that the prototypes serve (\<^verbatim>\<open>length\<close>, indices,
  methods) are outside this function.
\<close>

fun get_prop :: "jsval \<Rightarrow> string \<Rightarrow> exn + jsval" where
  "get_prop JUndefined k = Inl TypeError"
| "get_prop JNull k = Inl TypeError"
| "get_prop (JObj ps) k = Inr (case map_of ps k of None \<Rightarrow> JUndefined | Some v \<Rightarrow> v)"
| "get_prop v k = Inr JUndefined"

text \<open>
  The method call \<^verbatim>\<open>v.includes(s)\<close> with a string argument: on an array, membership
  (SameValueZero against a string is equality with that string); on a string, substring
  search; on any other value \<^verbatim>\<open>v.includes\<close> is not a function and the call throws.
\<close>

fun js_includes :: "jsval \<Rightarrow> string \<Rightarrow> exn + jsval" where
  "js_includes (JArr xs) s = Inr (JBool (JStr s \<in> set xs))"
| "js_includes (JStr t) s = Inr (JBool (sublist s t))"
| "js_includes v s = Inl TypeError"

section \<open>The validation pipe\<close>

text \<open>
  \<^verbatim>\<open>validation.pipe.ts\<close>:
  \<^verbatim>\<open>
  transform(value: any, metadata: ArgumentMetadata) {
    if (!value || typeof value.name !== 'string') {
      throw new BadRequestException('Validation failed: name is required');
    }
    return value;
  }
  \<close>
  The disjunction short-circuits, so \<^verbatim>\<open>value.name\<close> is read only when the value is truthy.
\<close>

datatype paramtype = Body | Query | Param | Custom

record argument_metadata =
  md_type :: paramtype
  md_data :: "string option"

definition transform :: "jsval \<Rightarrow> argument_metadata \<Rightarrow> exn + jsval" where
  "transform val metadata =
     (if \<not> truthy val
      then Inl (HttpExn (BadRequestException ''Validation failed: name is required''))
      else case get_prop val ''name'' of
             Inl e \<Rightarrow> Inl e
           | Inr name \<Rightarrow>
               if typeof name \<noteq> ''string''
               then Inl (HttpExn (BadRequestException ''Validation failed: name is required''))
               else Inr val)"

section \<open>The roles decorator and the roles guard\<close>

text \<open>
  Modelled from the spec: \<^verbatim>\<open>SetMetadata\<close> is the framework's decorator factory and is not
  among the sources; section 9 describes it as attaching declarative policy metadata to
  a handler. The metadata of a handler is a list of keyed entries, the latest first.
\<close>

type_synonym metadata = "(string \<times> string list) list"

definition SetMetadata :: "string \<Rightarrow> string list \<Rightarrow> metadata \<Rightarrow> metadata" where
  "SetMetadata key v target = (key, v) # target"

text \<open>
  \<^verbatim>\<open>roles.decorator.ts\<close>:
  \<^verbatim>\<open>export const Roles = (...roles: string[]) => SetMetadata('roles', roles);\<close>
\<close>

definition Roles :: "string list \<Rightarrow> metadata \<Rightarrow> metadata" where
  "Roles roles = SetMetadata ''roles'' roles"

text \<open>
  The request as the guard and the body decorator see it: \<^verbatim>\<open>request.user\<close> and
  \<^verbatim>\<open>request.body\<close>, each \<^verbatim>\<open>undefined\<close> when nothing has set it. The execution context
  gives the request (\<^verbatim>\<open>switchToHttp().getRequest()\<close>) and the handler being invoked,
  which carries the metadata that the decorators attached to it.
\<close>

record request =
  user :: jsval
  body :: jsval

record execution_context =
  getRequest :: request
  getHandler :: metadata

text \<open>
  \<^verbatim>\<open>roles.guard.ts\<close>:
  \<^verbatim>\<open>
  canActivate(context: ExecutionContext): boolean {
    const request = context.switchToHttp().getRequest();
    const user = request.user;
    return user && user.roles && user.roles.includes('admin');
  }
  \<close>
  \<^verbatim>\<open>a && b\<close> evaluates to \<^verbatim>\<open>a\<close> itself when \<^verbatim>\<open>a\<close> is falsy, and to \<^verbatim>\<open>b\<close> otherwise; the
  declared return type is erased at run time.
\<close>

definition canActivate :: "execution_context \<Rightarrow> exn + jsval" where
  "canActivate context =
     (let req = getRequest context;
          usr = user req
      in if \<not> truthy usr then Inr usr
         else case get_prop usr ''roles'' of
                Inl e \<Rightarrow> Inl e
              | Inr roles \<Rightarrow>
                  if \<not> truthy roles then Inr roles else js_includes roles ''admin'')"

section \<open>The gateway and the service\<close>

text \<open>
  \<^verbatim>\<open>cats.gateway.ts\<close>: \<^verbatim>\<open>handleMessage(data: string): string { return `Received: ${data}`; }\<close>
\<close>

definition handleMessage :: "string \<Rightarrow> string" where
  "handleMessage payload_data = ''Received: '' @ payload_data"

text \<open>
  \<^verbatim>\<open>CatsService\<close>: the private array \<^verbatim>\<open>cats\<close>, initialised with one record, read by
  \<^verbatim>\<open>getCats\<close> and extended by \<^verbatim>\<open>createCat\<close>, which pushes its argument and returns it.
\<close>

record cats_service =
  cats :: "jsval list"

definition CatsService_new :: cats_service where
  "CatsService_new = \<lparr>cats = [JObj [(''name'', JStr ''Tom''), (''age'', JNum (Finite 3))]]\<rparr>"

definition getCats :: "cats_service \<Rightarrow> jsval list \<times> cats_service" where
  "getCats this = (cats this, this)"

definition createCat :: "jsval \<Rightarrow> cats_service \<Rightarrow> jsval \<times> cats_service" where
  "createCat cat this = (cat, this\<lparr>cats := cats this @ [cat]\<rparr>)"

text \<open>The two operations of the service, and a run of any number of them.\<close>

datatype store_op = GetCats | CreateCat jsval

fun apply_op :: "store_op \<Rightarrow> cats_service \<Rightarrow> cats_service" where
  "apply_op GetCats this = snd (getCats this)"
| "apply_op (CreateCat cat) this = snd (createCat cat this)"

fun run_ops :: "store_op list \<Rightarrow> cats_service \<Rightarrow> cats_service" where
  "run_ops [] this = this"
| "run_ops (x # xs) this = run_ops xs (apply_op x this)"

section \<open>The exception filter\<close>

text \<open>
  Modelled from the spec: the transport response object belongs to the HTTP platform and
  is not among the sources; section 4.3 has the filter set "the transport status" and
  serialize an object "as the outward response". \<^verbatim>\<open>status(code)\<close> stores the code and
  \<^verbatim>\<open>json(obj)\<close> stores the object to be sent; both return the response.
\<close>

record http_response =
  statusCode :: int
  payload :: "jsval option"

definition status :: "int \<Rightarrow> http_response \<Rightarrow> http_response" where
  "status code res = res\<lparr>statusCode := code\<rparr>"

definition json :: "jsval \<Rightarrow> http_response \<Rightarrow> http_response" where
  "json obj res = res\<lparr>payload := Some obj\<rparr>"

record arguments_host =
  getResponse :: http_response

text \<open>
  \<^verbatim>\<open>http-exception.filter.ts\<close>:
  \<^verbatim>\<open>
  catch(exception: HttpException, host: ArgumentsHost) {
    const ctx = host.switchToHttp();
    const response = ctx.getResponse();
    const status = exception.getStatus();
    response.status(status).json({ statusCode: status, message: exception.message });
  }
  \<close>
  The source mutates the response in place; the model returns it.
\<close>

definition catch :: "http_exception \<Rightarrow> arguments_host \<Rightarrow> http_response" where
  "catch exception host =
     (let response = getResponse host;
          st = getStatus exception
      in json (JObj [(''statusCode'', JNum (Finite (of_int st))),
                     (''message'', JStr (message exception))])
           (status st response))"

section \<open>The controller and the request pipeline\<close>

text \<open>
  \<^verbatim>\<open>cats.controller.ts\<close>: the three handlers delegate to the service.
\<close>

definition getAll :: "cats_service \<Rightarrow> jsval \<times> cats_service" where
  "getAll catsService = (let (cs, svc) = getCats catsService in (JArr cs, svc))"

definition create :: "jsval \<Rightarrow> cats_service \<Rightarrow> jsval \<times> cats_service" where
  "create createCatDto catsService = createCat createCatDto catsService"

definition createWithValidation :: "jsval \<Rightarrow> cats_service \<Rightarrow> jsval \<times> cats_service" where
  "createWithValidation createCatDto catsService = createCat createCatDto catsService"

text \<open>
  Modelled from the spec: the pipeline composer is the framework's router, which is not
  among the sources. Section 4.5 fixes its order for one request: the authorization check
  gates continuation (reject if false), then the input validator gates continuation, then
  the handler executes, and the error wrapper catches any tagged failure raised at any
  prior stage; section 4.3 lets a failure that is not tagged propagate unhandled.
  Section 8 gives 201 as the status of a successful creation; a successful read keeps
  the status of a fresh response, 200. A route is what the decorators of a handler
  declare: its guards, its pipes, its filter, its metadata, the handler and the status
  of a successful response.
\<close>

datatype outcome = Responded http_response | Unhandled exn

datatype handler =
    NoArgs "cats_service \<Rightarrow> jsval \<times> cats_service"
  | BodyArg "jsval \<Rightarrow> cats_service \<Rightarrow> jsval \<times> cats_service"

record route =
  guards :: "(execution_context \<Rightarrow> exn + jsval) list"
  pipes :: "(jsval \<Rightarrow> argument_metadata \<Rightarrow> exn + jsval) list"
  exception_filter :: "http_exception \<Rightarrow> arguments_host \<Rightarrow> http_response"
  route_metadata :: metadata
  route_handler :: handler
  success_status :: int

fun run_guards :: "(execution_context \<Rightarrow> exn + jsval) list \<Rightarrow> execution_context \<Rightarrow> exn + unit" where
  "run_guards [] context = Inr ()"
| "run_guards (g # gs) context =
     (case g context of
        Inl e \<Rightarrow> Inl e
      | Inr r \<Rightarrow> if truthy r then run_guards gs context else Inl (HttpExn ForbiddenException))"

fun run_pipes :: "(jsval \<Rightarrow> argument_metadata \<Rightarrow> exn + jsval) list \<Rightarrow> jsval \<Rightarrow> argument_metadata \<Rightarrow> exn + jsval" where
  "run_pipes [] v md = Inr v"
| "run_pipes (p # ps) v md =
     (case p v md of Inl e \<Rightarrow> Inl e | Inr w \<Rightarrow> run_pipes ps w md)"

definition fresh_response :: http_response where
  "fresh_response = \<lparr>statusCode = 200, payload = None\<rparr>"

definition handle_exception ::
  "(http_exception \<Rightarrow> arguments_host \<Rightarrow> http_response) \<Rightarrow> exn \<Rightarrow> outcome" where
  "handle_exception flt e =
     (case e of
        HttpExn h \<Rightarrow> Responded (flt h \<lparr>getResponse = fresh_response\<rparr>)
      | TypeError \<Rightarrow> Unhandled TypeError)"

definition succeed :: "route \<Rightarrow> jsval \<times> cats_service \<Rightarrow> outcome \<times> cats_service" where
  "succeed rt rs =
     (Responded \<lparr>statusCode = success_status rt, payload = Some (fst rs)\<rparr>, snd rs)"

definition dispatch :: "route \<Rightarrow> request \<Rightarrow> cats_service \<Rightarrow> outcome \<times> cats_service" where
  "dispatch rt req svc =
     (case run_guards (guards rt) \<lparr>getRequest = req, getHandler = route_metadata rt\<rparr> of
        Inl e \<Rightarrow> (handle_exception (exception_filter rt) e, svc)
      | Inr u \<Rightarrow>
          (case route_handler rt of
             NoArgs h \<Rightarrow> succeed rt (h svc)
           | BodyArg h \<Rightarrow>
               (case run_pipes (pipes rt) (body req) \<lparr>md_type = Body, md_data = None\<rparr> of
                  Inl e \<Rightarrow> (handle_exception (exception_filter rt) e, svc)
                | Inr arg \<Rightarrow> succeed rt (h arg svc))))"

text \<open>
  The routes as \<^verbatim>\<open>cats.controller.ts\<close> declares them. \<^verbatim>\<open>@UseFilters(HttpExceptionFilter)\<close>
  is on the controller and covers all three; \<^verbatim>\<open>create\<close> carries \<^verbatim>\<open>@Roles('admin')\<close>,
  \<^verbatim>\<open>@UseGuards(RolesGuard)\<close> and \<^verbatim>\<open>@UsePipes(ValidationPipe)\<close>; \<^verbatim>\<open>createWithValidation\<close>
  carries \<^verbatim>\<open>@UsePipes(ValidationPipe)\<close> only. The logging middleware and interceptor
  write to the console and pass the request and the result through; they are left out.
\<close>

definition getAll_route :: route where
  "getAll_route =
     \<lparr>guards = [], pipes = [], exception_filter = catch, route_metadata = [],
      route_handler = NoArgs getAll, success_status = 200\<rparr>"

definition create_route :: route where
  "create_route =
     \<lparr>guards = [canActivate], pipes = [transform], exception_filter = catch,
      route_metadata = Roles [''admin''] [], route_handler = BodyArg create,
      success_status = 201\<rparr>"

definition createWithValidation_route :: route where
  "createWithValidation_route =
     \<lparr>guards = [], pipes = [transform], exception_filter = catch, route_metadata = [],
      route_handler = BodyArg createWithValidation, success_status = 201\<rparr>"

definition GET_cats :: "request \<Rightarrow> cats_service \<Rightarrow> outcome \<times> cats_service" where
  "GET_cats = dispatch getAll_route"

definition POST_cats :: "request \<Rightarrow> cats_service \<Rightarrow> outcome \<times> cats_service" where
  "POST_cats = dispatch create_route"

definition POST_cats_validation_pipe :: "request \<Rightarrow> cats_service \<Rightarrow> outcome \<times> cats_service" where
  "POST_cats_validation_pipe = dispatch createWithValidation_route"


fun outcome_payload :: "outcome \<Rightarrow> jsval option" where
  "outcome_payload (Responded r) = payload r"
| "outcome_payload (Unhandled e) = None"

section \<open>Results about the validation pipe\<close>

lemma typeof_string_iff: "typeof v = ''string'' \<longleftrightarrow> (\<exists>s. v = JStr s)"
  by (cases v) simp_all

lemma get_prop_truthy: "truthy v \<Longrightarrow> \<exists>w. get_prop v k = Inr w"
  by (cases v) simp_all

lemma get_prop_string_truthy: "get_prop v k = Inr (JStr s) \<Longrightarrow> truthy v"
  by (cases v) simp_all

lemma transform_cases:
  "transform val md =
     (if val \<noteq> JUndefined \<and> val \<noteq> JNull \<and> (\<exists>s. get_prop val ''name'' = Inr (JStr s))
      then Inr val
      else Inl (HttpExn (BadRequestException ''Validation failed: name is required'')))"
proof (cases "truthy val")
  case False
  then have "\<not> (\<exists>s. get_prop val ''name'' = Inr (JStr s))"
    using get_prop_string_truthy by blast
  with False show ?thesis by (simp add: transform_def)
next
  case True
  then obtain w where w: "get_prop val ''name'' = Inr w"
    using get_prop_truthy by blast
  from True have nn: "val \<noteq> JUndefined \<and> val \<noteq> JNull" by auto
  show ?thesis
    using True w nn by (auto simp: transform_def typeof_string_iff)
qed

text \<open>
  C1. The pipe returns its input unchanged exactly when the input is neither
  \<^verbatim>\<open>undefined\<close> nor \<^verbatim>\<open>null\<close> and its \<^verbatim>\<open>name\<close> property is a string; every other input
  raises the BadRequestException with the message "Validation failed: name is required".
  No other field matters: two objects that agree on \<^verbatim>\<open>name\<close> are both accepted or both
  rejected, whatever the argument metadata.
\<close>

theorem transform_accepts_iff_string_name:
  "(transform val md = Inr val \<longleftrightarrow>
      val \<noteq> JUndefined \<and> val \<noteq> JNull \<and> (\<exists>s. get_prop val ''name'' = Inr (JStr s)))
   \<and> (transform val md \<noteq> Inr val \<longrightarrow>
        transform val md =
          Inl (HttpExn (BadRequestException ''Validation failed: name is required'')))
   \<and> (map_of ps ''name'' = map_of qs ''name'' \<longrightarrow>
        isl (transform (JObj ps) md) = isl (transform (JObj qs) md'))"
proof (intro conjI impI)
  show "transform val md = Inr val \<longleftrightarrow>
      val \<noteq> JUndefined \<and> val \<noteq> JNull \<and> (\<exists>s. get_prop val ''name'' = Inr (JStr s))"
    by (subst transform_cases) simp
next
  assume "transform val md \<noteq> Inr val"
  then show "transform val md =
      Inl (HttpExn (BadRequestException ''Validation failed: name is required''))"
    by (subst (asm) transform_cases, subst transform_cases) (simp split: if_splits)
next
  assume "map_of ps ''name'' = map_of qs ''name''"
  then show "isl (transform (JObj ps) md) = isl (transform (JObj qs) md')"
    by (simp add: transform_cases)
qed

theorem transform_accepts_iff_string_name_witness:
  "transform (JObj [(''name'', JStr ''Tom'')]) \<lparr>md_type = Body, md_data = None\<rparr>
     = Inr (JObj [(''name'', JStr ''Tom'')])
   \<and> transform (JObj [(''age'', JNum (Finite 3))]) \<lparr>md_type = Body, md_data = None\<rparr>
     = Inl (HttpExn (BadRequestException ''Validation failed: name is required''))
   \<and> isl (transform (JObj [(''name'', JStr ''Tom''), (''age'', JStr ''x'')])
            \<lparr>md_type = Body, md_data = None\<rparr>)
     = isl (transform (JObj [(''name'', JStr ''Tom'')]) \<lparr>md_type = Query, md_data = None\<rparr>)"
  using transform_accepts_iff_string_name
    [of "JObj [(''name'', JStr ''Tom'')]" "\<lparr>md_type = Body, md_data = None\<rparr>"
        "[(''name'', JStr ''Tom''), (''age'', JStr ''x'')]" "[(''name'', JStr ''Tom'')]"
        "\<lparr>md_type = Query, md_data = None\<rparr>"]
    transform_accepts_iff_string_name
    [of "JObj [(''age'', JNum (Finite 3))]" "\<lparr>md_type = Body, md_data = None\<rparr>"]
  by simp

section \<open>Results about the roles guard\<close>

lemma roles_array_truthy: "get_prop u k = Inr (JArr rs) \<Longrightarrow> truthy u"
  by (cases u) simp_all

lemma canActivate_roles_array:
  assumes "get_prop (user req) ''roles'' = Inr (JArr rs)"
  shows "canActivate \<lparr>getRequest = req, getHandler = m\<rparr>
           = Inr (JBool (JStr ''admin'' \<in> set rs))"
  using assms roles_array_truthy [OF assms] by (simp add: canActivate_def)

text \<open>
  C2. The guard is claimed to return \<^verbatim>\<open>false\<close> for every context without the admin
  role, also when the role field is absent. On the context of the repository's own unit
  test "should deny if user has no roles", a request whose user is the empty object, the
  guard returns \<^verbatim>\<open>undefined\<close>: \<^verbatim>\<open>user && user.roles && ...\<close> evaluates to its first
  falsy operand, here \<^verbatim>\<open>user.roles\<close>.
\<close>

theorem canActivate_user_without_roles:
  "canActivate \<lparr>getRequest = \<lparr>user = JObj [], body = JUndefined\<rparr>,
                 getHandler = Roles [''admin''] []\<rparr> = Inr JUndefined"
  by (simp add: canActivate_def)

text \<open>
  C10. The guard never reads the metadata of the handler: with the same request, any two
  metadata values (whatever \<^verbatim>\<open>@Roles\<close> attached, or nothing) give the same result. With a
  role list on the user, the result is whether that list contains the string "admin".
\<close>

theorem canActivate_ignores_route_metadata:
  "canActivate \<lparr>getRequest = req, getHandler = m\<rparr>
     = canActivate \<lparr>getRequest = req, getHandler = m'\<rparr>
   \<and> (get_prop (user req) ''roles'' = Inr (JArr xs) \<longrightarrow>
        canActivate \<lparr>getRequest = req, getHandler = m\<rparr>
          = Inr (JBool (JStr ''admin'' \<in> set xs)))"
proof (intro conjI impI)
  show "canActivate \<lparr>getRequest = req, getHandler = m\<rparr>
     = canActivate \<lparr>getRequest = req, getHandler = m'\<rparr>"
    by (simp add: canActivate_def)
next
  assume a: "get_prop (user req) ''roles'' = Inr (JArr xs)"
  show "canActivate \<lparr>getRequest = req, getHandler = m\<rparr>
          = Inr (JBool (JStr ''admin'' \<in> set xs))"
    by (rule canActivate_roles_array [OF a])
qed

theorem canActivate_ignores_route_metadata_witness:
  "canActivate \<lparr>getRequest = \<lparr>user = JObj [(''roles'', JArr [JStr ''editor''])], body = JNull\<rparr>,
                 getHandler = Roles [''editor''] []\<rparr>
     = canActivate \<lparr>getRequest = \<lparr>user = JObj [(''roles'', JArr [JStr ''editor''])], body = JNull\<rparr>,
                     getHandler = Roles [''admin''] []\<rparr>
   \<and> canActivate \<lparr>getRequest = \<lparr>user = JObj [(''roles'', JArr [JStr ''editor''])], body = JNull\<rparr>,
                   getHandler = Roles [''editor''] []\<rparr>
     = Inr (JBool False)"
  using canActivate_ignores_route_metadata
    [of "\<lparr>user = JObj [(''roles'', JArr [JStr ''editor''])], body = JNull\<rparr>"
        "Roles [''editor''] []" "Roles [''admin''] []" "[JStr ''editor'']"]
  by (simp add: canActivate_def)

section \<open>Results about the gateway, the service and the filter\<close>

text \<open>
  C8. The message handler returns "Received: " followed by the payload; on "ping" it
  returns "Received: ping".
\<close>

theorem handleMessage_echo:
  "handleMessage p = ''Received: '' @ p \<and> handleMessage ''ping'' = ''Received: ping''"
  by (simp add: handleMessage_def)

text \<open>
  C9. A new service holds exactly one record, Tom aged 3, so the store is not empty and
  the handler of GET /cats returns a one-element sequence.
\<close>

theorem initial_store_is_tom:
  "cats CatsService_new = [JObj [(''name'', JStr ''Tom''), (''age'', JNum (Finite 3))]]
   \<and> cats CatsService_new \<noteq> []
   \<and> length (cats CatsService_new) = 1
   \<and> fst (getAll CatsService_new)
       = JArr [JObj [(''name'', JStr ''Tom''), (''age'', JNum (Finite 3))]]"
  by (simp add: CatsService_new_def getAll_def getCats_def)

lemma apply_op_prefix: "prefix (cats this) (cats (apply_op x this))"
  by (cases x) (simp_all add: getCats_def createCat_def)

lemma run_ops_prefix: "prefix (cats this) (cats (run_ops xs this))"
proof (induction xs arbitrary: this)
  case Nil
  show ?case by simp
next
  case (Cons x xs)
  have "prefix (cats this) (cats (apply_op x this))" by (rule apply_op_prefix)
  also have "prefix (cats (apply_op x this)) (cats (run_ops xs (apply_op x this)))"
    by (rule Cons.IH)
  finally show ?case by simp
qed

text \<open>
  C5. The store before \<^verbatim>\<open>getCats\<close> or \<^verbatim>\<open>createCat\<close> is a prefix of the store after it,
  and so is the store before any run of the two operations: every record that was stored
  stays at its index, unchanged.
\<close>

theorem store_operations_preserve_prefix:
  "prefix (cats this) (cats (snd (getCats this)))
   \<and> prefix (cats this) (cats (snd (createCat cat this)))
   \<and> prefix (cats this) (cats (run_ops xs this))
   \<and> (\<forall>i. i < length (cats this) \<longrightarrow> cats (run_ops xs this) ! i = cats this ! i)"
proof (intro conjI allI impI)
  show "prefix (cats this) (cats (snd (getCats this)))" by (simp add: getCats_def)
  show "prefix (cats this) (cats (snd (createCat cat this)))" by (simp add: createCat_def)
  show "prefix (cats this) (cats (run_ops xs this))" by (rule run_ops_prefix)
next
  fix i assume i: "i < length (cats this)"
  obtain zs where "cats (run_ops xs this) = cats this @ zs"
    using run_ops_prefix [of this xs] by (auto elim: prefixE)
  with i show "cats (run_ops xs this) ! i = cats this ! i"
    by (simp add: nth_append)
qed

theorem store_operations_preserve_prefix_witness:
  "(0::nat) < length (cats CatsService_new)
   \<and> cats (run_ops [GetCats, CreateCat (JObj [(''name'', JStr ''Whiskers'')]), GetCats]
             CatsService_new) ! 0
       = cats CatsService_new ! 0
   \<and> prefix (cats CatsService_new)
       (cats (run_ops [GetCats, CreateCat (JObj [(''name'', JStr ''Whiskers'')]), GetCats]
                CatsService_new))"
proof -
  have len: "(0::nat) < length (cats CatsService_new)"
    by (simp add: CatsService_new_def)
  from store_operations_preserve_prefix
    [of CatsService_new JNull "[GetCats, CreateCat (JObj [(''name'', JStr ''Whiskers'')]), GetCats]"]
  show ?thesis using len by blast
qed

text \<open>
  C7. For a tagged exception with status code s and message m, the filter sets the
  status of the response to s and sends the object with \<^verbatim>\<open>statusCode\<close> s and \<^verbatim>\<open>message\<close> m
  as its body.
\<close>

theorem catch_sets_status_and_body:
  "statusCode (catch exception host) = getStatus exception
   \<and> payload (catch exception host)
       = Some (JObj [(''statusCode'', JNum (Finite (of_int (getStatus exception)))),
                     (''message'', JStr (message exception))])"
  by (simp add: catch_def status_def json_def Let_def)

section \<open>Results about the routes\<close>

lemma transform_bad_body:
  "transform (JObj [(''name'', JNum (Finite 123)), (''age'', JStr ''x'')]) md
     = Inl (HttpExn (BadRequestException ''Validation failed: name is required''))"
  by (simp add: transform_def)

lemma transform_whiskers:
  "transform (JObj [(''name'', JStr ''Whiskers''), (''age'', JNum (Finite 2))]) md
     = Inr (JObj [(''name'', JStr ''Whiskers''), (''age'', JNum (Finite 2))])"
  by (simp add: transform_def)

lemma POST_cats_unfold:
  "POST_cats req svc =
     (case canActivate \<lparr>getRequest = req, getHandler = Roles [''admin''] []\<rparr> of
        Inl e \<Rightarrow> (handle_exception catch e, svc)
      | Inr r \<Rightarrow>
          if truthy r
          then (case transform (body req) \<lparr>md_type = Body, md_data = None\<rparr> of
                  Inl e \<Rightarrow> (handle_exception catch e, svc)
                | Inr dto \<Rightarrow>
                    (Responded \<lparr>statusCode = 201, payload = Some dto\<rparr>,
                     svc\<lparr>cats := cats svc @ [dto]\<rparr>))
          else (handle_exception catch (HttpExn ForbiddenException), svc))"
  by (simp add: POST_cats_def dispatch_def create_route_def succeed_def create_def
      createCat_def split: sum.splits)

lemma POST_cats_validation_pipe_unfold:
  "POST_cats_validation_pipe req svc =
     (case transform (body req) \<lparr>md_type = Body, md_data = None\<rparr> of
        Inl e \<Rightarrow> (handle_exception catch e, svc)
      | Inr dto \<Rightarrow>
          (Responded \<lparr>statusCode = 201, payload = Some dto\<rparr>,
           svc\<lparr>cats := cats svc @ [dto]\<rparr>))"
  by (simp add: POST_cats_validation_pipe_def dispatch_def createWithValidation_route_def
      succeed_def createWithValidation_def createCat_def split: sum.splits)

lemma GET_cats_unfold:
  "GET_cats req svc = (Responded \<lparr>statusCode = 200, payload = Some (JArr (cats svc))\<rparr>, svc)"
  by (simp add: GET_cats_def dispatch_def getAll_route_def succeed_def getAll_def getCats_def)

lemma handle_bad_request:
  "handle_exception catch (HttpExn (BadRequestException msg))
     = Responded \<lparr>statusCode = 400,
         payload = Some (JObj [(''statusCode'', JNum (Finite 400)), (''message'', JStr msg)])\<rparr>"
  by (simp add: handle_exception_def catch_def status_def json_def Let_def
      BadRequestException_def fresh_response_def)

lemma POST_cats_admin:
  assumes "get_prop u ''roles'' = Inr (JArr rs)" and "JStr ''admin'' \<in> set rs"
  shows "POST_cats \<lparr>user = u, body = b\<rparr> svc =
     (case transform b \<lparr>md_type = Body, md_data = None\<rparr> of
        Inl e \<Rightarrow> (handle_exception catch e, svc)
      | Inr dto \<Rightarrow>
          (Responded \<lparr>statusCode = 201, payload = Some dto\<rparr>,
           svc\<lparr>cats := cats svc @ [dto]\<rparr>))"
proof -
  have "canActivate \<lparr>getRequest = \<lparr>user = u, body = b\<rparr>, getHandler = Roles [''admin''] []\<rparr>
          = Inr (JBool True)"
    using canActivate_roles_array [of "\<lparr>user = u, body = b\<rparr>" rs] assms by simp
  then show ?thesis by (simp add: POST_cats_unfold)
qed

lemma POST_cats_invalid_body_rejected:
  "snd (POST_cats \<lparr>user = u, body = JObj [(''name'', JNum (Finite 123)), (''age'', JStr ''x'')]\<rparr> svc)
     = svc
   \<and> (get_prop u ''roles'' = Inr (JArr rs) \<and> JStr ''admin'' \<in> set rs \<longrightarrow>
        fst (POST_cats
              \<lparr>user = u, body = JObj [(''name'', JNum (Finite 123)), (''age'', JStr ''x'')]\<rparr> svc)
          = Responded \<lparr>statusCode = 400,
              payload = Some (JObj [(''statusCode'', JNum (Finite 400)),
                                    (''message'', JStr ''Validation failed: name is required'')])\<rparr>)"
proof (intro conjI impI)
  show "snd (POST_cats \<lparr>user = u, body = JObj [(''name'', JNum (Finite 123)), (''age'', JStr ''x'')]\<rparr> svc)
     = svc"
    by (simp add: POST_cats_unfold transform_bad_body split: sum.splits)
next
  assume "get_prop u ''roles'' = Inr (JArr rs) \<and> JStr ''admin'' \<in> set rs"
  then show "fst (POST_cats
              \<lparr>user = u, body = JObj [(''name'', JNum (Finite 123)), (''age'', JStr ''x'')]\<rparr> svc)
          = Responded \<lparr>statusCode = 400,
              payload = Some (JObj [(''statusCode'', JNum (Finite 400)),
                                    (''message'', JStr ''Validation failed: name is required'')])\<rparr>"
    by (simp add: POST_cats_admin transform_bad_body handle_bad_request)
qed


text \<open>
  C4. For every prior store, POST /cats with body \<^verbatim>\<open>{name: "Whiskers", age: 2}\<close> from a
  caller whose role list contains "admin" is answered with status 201 and appends the
  body to the store; a GET /cats that follows returns the previous sequence with the body
  as its last element.
\<close>

theorem POST_cats_admin_appends:
  assumes "get_prop u ''roles'' = Inr (JArr rs)" and "JStr ''admin'' \<in> set rs"
  shows "POST_cats \<lparr>user = u, body = JObj [(''name'', JStr ''Whiskers''), (''age'', JNum (Finite 2))]\<rparr> svc
           = (Responded \<lparr>statusCode = 201,
                payload = Some (JObj [(''name'', JStr ''Whiskers''), (''age'', JNum (Finite 2))])\<rparr>,
              svc\<lparr>cats := cats svc @ [JObj [(''name'', JStr ''Whiskers''), (''age'', JNum (Finite 2))]]\<rparr>)
         \<and> outcome_payload (fst (GET_cats req
                 (snd (POST_cats \<lparr>user = u, body = JObj [(''name'', JStr ''Whiskers''), (''age'', JNum (Finite 2))]\<rparr> svc))))
           = Some (JArr (cats svc @ [JObj [(''name'', JStr ''Whiskers''), (''age'', JNum (Finite 2))]]))"
  by (simp add: POST_cats_admin [OF assms] transform_whiskers GET_cats_unfold)

theorem POST_cats_admin_appends_witness:
  "POST_cats \<lparr>user = JObj [(''roles'', JArr [JStr ''user'', JStr ''admin''])],
              body = JObj [(''name'', JStr ''Whiskers''), (''age'', JNum (Finite 2))]\<rparr> CatsService_new
     = (Responded \<lparr>statusCode = 201,
          payload = Some (JObj [(''name'', JStr ''Whiskers''), (''age'', JNum (Finite 2))])\<rparr>,
        \<lparr>cats = [JObj [(''name'', JStr ''Tom''), (''age'', JNum (Finite 3))],
                 JObj [(''name'', JStr ''Whiskers''), (''age'', JNum (Finite 2))]]\<rparr>)"
proof -
  have r: "get_prop (JObj [(''roles'', JArr [JStr ''user'', JStr ''admin''])]) ''roles''
             = Inr (JArr [JStr ''user'', JStr ''admin''])"
    by simp
  have a: "JStr ''admin'' \<in> set [JStr ''user'', JStr ''admin'']"
    by simp
  from POST_cats_admin_appends [OF r a, of CatsService_new]
  show ?thesis by (simp add: CatsService_new_def)
qed

text \<open>
  C6. POST /cats/validation-pipe does not depend on the caller, and for every body and
  store it gives the response and the new store that POST /cats gives to a caller whose
  role list contains "admin": the same validator, the same append, no guard.
\<close>

theorem validation_pipe_route_is_create_without_guard:
  "POST_cats_validation_pipe \<lparr>user = u, body = b\<rparr> svc
     = POST_cats_validation_pipe \<lparr>user = u', body = b\<rparr> svc
   \<and> (get_prop a ''roles'' = Inr (JArr rs) \<and> JStr ''admin'' \<in> set rs \<longrightarrow>
        POST_cats_validation_pipe \<lparr>user = u, body = b\<rparr> svc
          = POST_cats \<lparr>user = a, body = b\<rparr> svc)"
  by (simp add: POST_cats_validation_pipe_unfold POST_cats_admin)

theorem validation_pipe_route_is_create_without_guard_witness:
  "POST_cats_validation_pipe
      \<lparr>user = JUndefined, body = JObj [(''name'', JStr ''Whiskers''), (''age'', JNum (Finite 2))]\<rparr>
      CatsService_new
     = POST_cats
        \<lparr>user = JObj [(''roles'', JArr [JStr ''admin''])],
          body = JObj [(''name'', JStr ''Whiskers''), (''age'', JNum (Finite 2))]\<rparr>
        CatsService_new"
  using validation_pipe_route_is_create_without_guard
    [of JUndefined "JObj [(''name'', JStr ''Whiskers''), (''age'', JNum (Finite 2))]"
        CatsService_new JUndefined "JObj [(''roles'', JArr [JStr ''admin''])]" "[JStr ''admin'']"]
  by simp

end
